theory Spec2Isabelle
  imports Main "HOL-Library.AList"
begin

section \<open>JavaScript strings and numbers\<close>

text \<open>
  A JavaScript string is a sequence of UTF-16 code units and \<open>length\<close> counts code units.
  Here a string is a \<open>char list\<close> in which one \<open>char\<close> is one code unit of the range
  U+0000 .. U+00FF; strings holding code units above U+00FF are outside the model.
  Numbers that the code uses as lengths, counts and millisecond clocks are integers
  (\<open>int\<close>): fractions, NaN and the infinities are not modelled.
\<close>

definition newline :: char where
  "newline = CHR 0x0A"

text \<open>\<open>xs.slice(0, e)\<close>: a negative end counts from the end of the sequence.\<close>

definition js_slice0 :: "'a list \<Rightarrow> int \<Rightarrow> 'a list" where
  "js_slice0 xs e =
     (if e < 0 then take (nat (int (length xs) + e)) xs else take (nat e) xs)"

text \<open>\<open>s.lastIndexOf(c)\<close>: the index of the last occurrence, or -1.\<close>

definition lastIndexOf :: "string \<Rightarrow> char \<Rightarrow> int" where
  "lastIndexOf s c =
     (if c \<in> set s
      then int (length s) - 1 - int (length (takeWhile (\<lambda>x. x \<noteq> c) (rev s)))
      else - 1)"

text \<open>
  The decimal text a template literal produces for an integer (below \<open>10^21\<close>, where
  JavaScript changes to exponent form).
\<close>

definition digit_char :: "nat \<Rightarrow> char" where
  "digit_char n = ''0123456789'' ! (n mod 10)"

fun digits :: "nat \<Rightarrow> string" where
  "digits n = (if n < 10 then [digit_char n] else digits (n div 10) @ [digit_char n])"

definition String_of_int :: "int \<Rightarrow> string" where
  "String_of_int i = (if i < 0 then CHR ''-'' # digits (nat (- i)) else digits (nat i))"

text \<open>\<open>String(b)\<close> for an optional boolean: \<open>undefined\<close> prints as its name.\<close>

definition String_of_bool :: "bool option \<Rightarrow> string" where
  "String_of_bool b =
     (case b of None \<Rightarrow> ''undefined'' | Some True \<Rightarrow> ''true'' | Some False \<Rightarrow> ''false'')"

text \<open>\<open>s || d\<close> for an optional string: \<open>undefined\<close> and the empty string are falsy.\<close>

definition or_else :: "string option \<Rightarrow> string \<Rightarrow> string" where
  "or_else s d = (case s of None \<Rightarrow> d | Some t \<Rightarrow> if t = [] then d else t)"

text \<open>
  The white space of \<open>String.prototype.trim\<close> and of the regular expression class
  \<open>\s\<close> (the same set) inside U+0000 .. U+00FF: TAB, LF, VT, FF, CR, SPACE and NBSP.
\<close>

definition is_space :: "char \<Rightarrow> bool" where
  "is_space c \<longleftrightarrow>
     c \<in> {CHR 0x09, CHR 0x0A, CHR 0x0B, CHR 0x0C, CHR 0x0D, CHR 0x20, CHR 0xA0}"

text \<open>
  \<open>toLowerCase\<close> inside U+0000 .. U+00FF: A-Z, and the Latin-1 capitals U+00C0 .. U+00DE
  without the multiplication sign U+00D7, move up by 32.
\<close>

definition lower_char :: "char \<Rightarrow> char" where
  "lower_char c =
     (let n = (of_char c :: nat)
      in if (65 \<le> n \<and> n \<le> 90) \<or> (192 \<le> n \<and> n \<le> 222 \<and> n \<noteq> 215)
         then char_of (n + 32) else c)"

definition toLowerCase :: "string \<Rightarrow> string" where
  "toLowerCase s = map lower_char s"

definition trim :: "string \<Rightarrow> string" where
  "trim s = rev (dropWhile is_space (rev (dropWhile is_space s)))"

text \<open>\<open>s.replace(/\s+/g, "_")\<close>: every maximal run of white space becomes one underscore.\<close>

function replace_space_runs :: "string \<Rightarrow> string" where
  "replace_space_runs [] = []"
| "replace_space_runs (c # cs) =
     (if is_space c then CHR ''_'' # replace_space_runs (dropWhile is_space cs)
      else c # replace_space_runs cs)"
  by pat_completeness auto
termination
  by (relation "measure length") (auto simp: length_dropWhile_le less_Suc_eq_le)

text \<open>The character class \<open>[a-z0-9_-]\<close>.\<close>

definition key_char :: "char \<Rightarrow> bool" where
  "key_char c \<longleftrightarrow> c \<in> set ''abcdefghijklmnopqrstuvwxyz0123456789_-''"

text \<open>\<open>s.replace(/[^a-z0-9_-]/g, "_")\<close>: every code unit outside the class becomes an underscore.\<close>

definition replace_non_key :: "string \<Rightarrow> string" where
  "replace_non_key s = map (\<lambda>c. if key_char c then c else CHR ''_'') s"

section \<open>Content Guard (security/external-content.ts)\<close>

definition wrapWebContent :: "string \<Rightarrow> string option \<Rightarrow> string" where
  "wrapWebContent content source =
     (if content = [] then []
      else
        let sourceLabel =
              (case source of
                 None \<Rightarrow> []
               | Some s \<Rightarrow> if s = [] then [] else '' [Source: '' @ s @ '']'')
        in ''<!-- EXTERNAL_CONTENT'' @ sourceLabel @ '' -->'' @ [newline]
           @ content @ [newline] @ ''<!-- END_EXTERNAL_CONTENT -->'')"

record truncate_options =
  preserveWords :: "bool option"
  suffix :: "string option"

definition DEFAULT_SUFFIX :: string where
  "DEFAULT_SUFFIX = newline # ''...[content truncated]''"

text \<open>
  \<open>truncateContent(content, maxLength, options?)\<close>. The test
  \<open>lastSpace > availableLength * 0.8\<close> compares integers below \<open>2^53\<close>, where the
  rounding of the double product cannot cross an integer, so it is
  \<open>5 * lastSpace > 4 * availableLength\<close>.
\<close>

definition truncateContent :: "string \<Rightarrow> int \<Rightarrow> truncate_options option \<Rightarrow> string" where
  "truncateContent content maxLength options =
     (if content = [] \<or> int (length content) \<le> maxLength then content
      else
        let sfx = (case Option.bind options suffix of None \<Rightarrow> DEFAULT_SUFFIX | Some s \<Rightarrow> s);
            availableLength = maxLength - int (length sfx)
        in if availableLength \<le> 0 then js_slice0 content maxLength
           else if Option.bind options preserveWords \<noteq> Some False then
             (let truncated = js_slice0 content availableLength;
                  lastSpace = lastIndexOf truncated CHR '' '';
                  truncated' =
                    (if 5 * lastSpace > 4 * availableLength
                     then js_slice0 truncated lastSpace else truncated)
              in truncated' @ sfx)
           else js_slice0 content availableLength @ sfx)"

section \<open>Content Cache (agents/tools/web-shared.ts)\<close>

record 'a CacheEntry =
  entry_value :: 'a
  timestamp :: int

text \<open>
  The module state a cache operation touches: the clock \<open>Date.now()\<close> in milliseconds,
  the \<open>Map\<close> of entries, the cleanups that \<open>setTimeout\<close> has scheduled and not yet run
  (due time, key, ttl), and the log of the network requests issued so far.
\<close>

datatype request = SearchRequest string string string | ReaderRequest string

record 'a web_state =
  now :: int
  cache :: "string \<rightharpoonup> 'a CacheEntry"
  timers :: "(int \<times> string \<times> int) list"
  requests :: "request list"

definition readCache :: "(string \<rightharpoonup> 'a CacheEntry) \<Rightarrow> string \<Rightarrow> 'a CacheEntry option" where
  "readCache c key = (case c key of None \<Rightarrow> None | Some entry \<Rightarrow> Some entry)"

definition writeCache :: "string \<Rightarrow> 'a \<Rightarrow> int \<Rightarrow> 'a web_state \<Rightarrow> 'a web_state" where
  "writeCache key v ttlMs st =
     st\<lparr>cache := (cache st)(key \<mapsto> \<lparr>entry_value = v, timestamp = now st\<rparr>),
        timers := timers st @ [(now st + ttlMs, key, ttlMs)]\<rparr>"

text \<open>The callback that \<open>writeCache\<close> hands to \<open>setTimeout\<close>, run at the state's clock.\<close>

definition cleanup :: "string \<Rightarrow> int \<Rightarrow> 'a web_state \<Rightarrow> 'a web_state" where
  "cleanup key ttlMs st =
     (case cache st key of
        None \<Rightarrow> st
      | Some entry \<Rightarrow>
          if now st - timestamp entry \<ge> ttlMs then st\<lparr>cache := (cache st)(key := None)\<rparr>
          else st)"

text \<open>Time passing with no task of this module running.\<close>

definition elapse :: "int \<Rightarrow> 'a web_state \<Rightarrow> 'a web_state" where
  "elapse ms st = st\<lparr>now := now st + ms\<rparr>"

text \<open>
  The timer phase of the event loop, idealised: every scheduled cleanup whose due time the
  clock has reached runs once. (The runtime may run a callback a millisecond early by
  \<open>Date.now()\<close>, and shortens delays above \<open>2^31 - 1\<close> ms.)
\<close>

definition run_due_timers :: "'a web_state \<Rightarrow> 'a web_state" where
  "run_due_timers st =
     (let due = filter (\<lambda>(t, key, ttlMs). t \<le> now st) (timers st);
          pending = filter (\<lambda>(t, key, ttlMs). \<not> t \<le> now st) (timers st)
      in fold (\<lambda>(t, key, ttlMs). cleanup key ttlMs) due (st\<lparr>timers := pending\<rparr>))"

definition isCacheValid :: "'a CacheEntry option \<Rightarrow> int \<Rightarrow> int \<Rightarrow> bool" where
  "isCacheValid entry ttlMs clock =
     (case entry of None \<Rightarrow> False | Some e \<Rightarrow> clock - timestamp e < ttlMs)"

definition normalizeCacheKey :: "string \<Rightarrow> string" where
  "normalizeCacheKey key =
     js_slice0 (replace_non_key (replace_space_runs (trim (toLowerCase key)))) 256"

section \<open>Search Pipeline (agents/tools/web-search.ts)\<close>

definition SEARXNG_INSTANCES :: "string list" where
  "SEARXNG_INSTANCES =
     [''https://searx.be'', ''https://searx.dresden.network'', ''https://search.sapti.me'',
      ''https://searx.tiekoetter.com'', ''https://searx.fmac.xyz'',
      ''https://searx.nixnet.services'', ''https://searx.prvcy.eu'',
      ''https://search.bus-hit.me'']"

definition JINA_READER_URL :: string where
  "JINA_READER_URL = ''https://r.jina.ai/http://''"

definition JINA_READER_HTTPS_URL :: string where
  "JINA_READER_HTTPS_URL = ''https://r.jina.ai/''"

definition MAX_CONTENT_LENGTH :: int where
  "MAX_CONTENT_LENGTH = 5000"

text \<open>One entry of a provider's \<open>results\<close> array; \<open>score\<close>, which is never read, is left out.\<close>

record SearXNGResult =
  sx_title :: "string option"
  sx_url :: "string option"
  sx_content :: "string option"
  sx_engine :: "string option"

record SearchResult =
  title :: string
  url :: string
  description :: string
  content :: "string option"
  siteName :: "string option"

record ExternalContent =
  untrusted :: bool
  source :: string
  ec_provider :: string
  wrapped :: bool

record SearchPayload =
  query :: string
  provider :: string
  instance_name :: "string option"
  result_count :: nat
  tookMs :: int
  error_text :: "string option"
  externalContent :: "ExternalContent option"
  results :: "SearchResult list"
  cached :: "bool option"

text \<open>
  What the network does with a request. For a provider: \<open>fetch\<close> or \<open>res.json()\<close> throws
  (\<open>Threw\<close>, which includes the abort of the timeout signal), or a response arrives with a
  status and the \<open>results\<close> field of its JSON body (\<open>None\<close> when the field is absent).
  For the reader: \<open>fetch\<close> or \<open>res.text()\<close> throws, or a response arrives with a status and a
  text body.
\<close>

datatype provider_reply = Threw | Http nat "SearXNGResult list option"

datatype reader_reply = ReaderThrew | ReaderHttp nat string

text \<open>
  The surroundings of one run: the array that
  \<open>[...SEARXNG_INSTANCES].sort(() => Math.random() - 0.5)\<close> produces, the replies of the
  network, the milliseconds each request takes, and \<open>new URL(url).hostname\<close>
  (\<open>None\<close> when the constructor throws).
\<close>

record search_env =
  shuffledInstances :: "string list"
  provider_reply_of :: "string \<Rightarrow> string \<Rightarrow> string \<Rightarrow> provider_reply"
  reader_reply_of :: "string \<Rightarrow> reader_reply"
  latency :: "request \<Rightarrow> nat"
  hostname :: "string \<Rightarrow> string option"

definition response_ok :: "nat \<Rightarrow> bool" where
  "response_ok status \<longleftrightarrow> 200 \<le> status \<and> status \<le> 299"

text \<open>Issuing a request: it is logged and the clock moves on by its duration.\<close>

definition issue :: "search_env \<Rightarrow> request \<Rightarrow> 'a web_state \<Rightarrow> 'a web_state" where
  "issue env req st =
     st\<lparr>now := now st + int (latency env req), requests := requests st @ [req]\<rparr>"

text \<open>The \<open>for\<close> loop of \<open>searchWithSearXNG\<close> over the instances still to try.\<close>

fun try_instances ::
  "search_env \<Rightarrow> string \<Rightarrow> int \<Rightarrow> string option \<Rightarrow> string list \<Rightarrow> 'a web_state
   \<Rightarrow> (SearXNGResult list \<times> string) option \<times> 'a web_state" where
  "try_instances env q cnt language [] st = (None, st)"
| "try_instances env q cnt language (inst # rest) st =
     (let lang = or_else language ''en-US'';
          st' = issue env (SearchRequest inst q lang) st
      in case provider_reply_of env inst q lang of
           Threw \<Rightarrow> try_instances env q cnt language rest st'
         | Http status data \<Rightarrow>
             if \<not> response_ok status then try_instances env q cnt language rest st'
             else
               (case data of
                  None \<Rightarrow> try_instances env q cnt language rest st'
                | Some rs \<Rightarrow>
                    if length rs > 0 then (Some (js_slice0 rs cnt, inst), st')
                    else try_instances env q cnt language rest st'))"

definition searchWithSearXNG ::
  "search_env \<Rightarrow> string \<Rightarrow> int \<Rightarrow> string option \<Rightarrow> int \<Rightarrow> 'a web_state
   \<Rightarrow> (SearXNGResult list \<times> string) option \<times> 'a web_state" where
  "searchWithSearXNG env q cnt language timeoutSeconds st =
     try_instances env q cnt language (shuffledInstances env) st"

text \<open>
  The replies after which the loop goes on to the next instance: the request threw, the
  status is not 2xx, or the body has no \<open>results\<close> or an empty array.
\<close>

definition provider_failed :: "provider_reply \<Rightarrow> bool" where
  "provider_failed r =
     (case r of
        Threw \<Rightarrow> True
      | Http status data \<Rightarrow>
          (if response_ok status then data = None \<or> data = Some [] else True))"

definition TRUNCATION_MARKER :: string where
  "TRUNCATION_MARKER = newline # ''...[content truncated]''"

definition jina_url :: "string \<Rightarrow> string" where
  "jina_url u =
     (if take 7 u = ''http://'' then JINA_READER_URL @ drop 7 u
      else JINA_READER_HTTPS_URL @ u)"

definition fetchWithJinaReader ::
  "search_env \<Rightarrow> string \<Rightarrow> int \<Rightarrow> 'a web_state \<Rightarrow> string option \<times> 'a web_state" where
  "fetchWithJinaReader env u timeoutSeconds st =
     (let jinaUrl = jina_url u;
          st' = issue env (ReaderRequest jinaUrl) st
      in case reader_reply_of env jinaUrl of
           ReaderThrew \<Rightarrow> (None, st')
         | ReaderHttp status body \<Rightarrow>
             if \<not> response_ok status then (None, st')
             else if int (length body) > MAX_CONTENT_LENGTH
               then (Some (js_slice0 body MAX_CONTENT_LENGTH @ TRUNCATION_MARKER), st')
             else (Some body, st'))"

definition resolveSiteName :: "search_env \<Rightarrow> string option \<Rightarrow> string option" where
  "resolveSiteName env u =
     (case u of None \<Rightarrow> None | Some s \<Rightarrow> if s = [] then None else hostname env s)"

text \<open>\<open>x || undefined\<close> for an optional string.\<close>

definition truthy :: "string option \<Rightarrow> string option" where
  "truthy s = (case s of None \<Rightarrow> None | Some t \<Rightarrow> if t = [] then None else Some t)"

record search_params =
  sp_query :: string
  sp_count :: int
  timeoutSeconds :: int
  cacheTtlMs :: int
  language :: "string option"
  fetchContent :: "bool option"

text \<open>The second \<open>for\<close> loop of \<open>runWebSearch\<close>: one mapped result per provider result.\<close>

fun map_results ::
  "search_env \<Rightarrow> search_params \<Rightarrow> SearXNGResult list \<Rightarrow> 'a web_state
   \<Rightarrow> SearchResult list \<times> 'a web_state" where
  "map_results env params [] st = ([], st)"
| "map_results env params (entry # rest) st =
     (let u = or_else (sx_url entry) [];
          t = or_else (sx_title entry) [];
          d = or_else (sx_content entry) [];
          (c, st') =
            (if fetchContent params \<noteq> Some False \<and> u \<noteq> []
             then (let (r, s) = fetchWithJinaReader env u (min (timeoutSeconds params) 10) st
                   in (truthy r, s))
             else (None, st));
          mapped =
            \<lparr>title = (if t \<noteq> [] then wrapWebContent t (Some ''web_search'') else []),
             url = u,
             description = (if d \<noteq> [] then wrapWebContent d (Some ''web_search'') else []),
             content = (case c of None \<Rightarrow> None
                        | Some x \<Rightarrow> Some (wrapWebContent x (Some ''web_search''))),
             siteName = truthy (resolveSiteName env (Some u))\<rparr>;
          (more, st'') = map_results env params rest st'
      in (mapped # more, st''))"

definition search_cache_key :: "search_params \<Rightarrow> string" where
  "search_cache_key params =
     normalizeCacheKey
       (''searxng:'' @ sp_query params @ '':'' @ String_of_int (sp_count params) @ '':''
        @ or_else (language params) ''default'' @ '':'' @ String_of_bool (fetchContent params))"

definition NO_RESULTS_ERROR :: string where
  "NO_RESULTS_ERROR = ''No results found from any SearXNG instance''"

definition runWebSearch ::
  "search_env \<Rightarrow> search_params \<Rightarrow> SearchPayload web_state
   \<Rightarrow> SearchPayload \<times> SearchPayload web_state" where
  "runWebSearch env params st =
     (let cacheKey = search_cache_key params
      in case readCache (cache st) cacheKey of
           Some hit \<Rightarrow> ((entry_value hit)\<lparr>cached := Some True\<rparr>, st)
         | None \<Rightarrow>
             (let start = now st;
                  (searchResult, st1) =
                    searchWithSearXNG env (sp_query params) (sp_count params) (language params)
                      (timeoutSeconds params) st;
                  found = (case searchResult of None \<Rightarrow> [] | Some (rs, inst) \<Rightarrow> rs)
              in if searchResult = None \<or> length found = 0 then
                   (let payload =
                          \<lparr>query = sp_query params, provider = ''searxng'',
                           instance_name = None, result_count = 0,
                           tookMs = now st1 - start, error_text = Some NO_RESULTS_ERROR,
                           externalContent = None, results = [], cached = None\<rparr>
                    in (payload, writeCache cacheKey payload (cacheTtlMs params) st1))
                 else
                   (let (mappedResults, st2) = map_results env params found st1;
                        payload =
                          \<lparr>query = sp_query params, provider = ''searxng'',
                           instance_name = map_option snd searchResult,
                           result_count = length mappedResults,
                           tookMs = now st2 - start, error_text = None,
                           externalContent =
                             Some \<lparr>untrusted = True, source = ''web_search'',
                                   ec_provider = ''searxng+jina'', wrapped = True\<rparr>,
                           results = mappedResults, cached = None\<rparr>
                    in (payload, writeCache cacheKey payload (cacheTtlMs params) st2))))"

section \<open>Browser Session Manager (browser/service.ts)\<close>

text \<open>
  A thrown value is an \<open>Error\<close> with a name and a message; \<open>String(error)\<close> prints
  both, or the name alone when the message is empty.
\<close>

datatype js_error = JsError string string

fun String_of_error :: "js_error \<Rightarrow> string" where
  "String_of_error (JsError name msg) = (if msg = [] then name else name @ '': '' @ msg)"

definition Error :: "string \<Rightarrow> js_error" where
  "Error msg = JsError ''Error'' msg"

text \<open>The handles of a session are opaque: numbers naming objects of the automation engine.\<close>

record BrowserSession =
  browser_handle :: nat
  context_handle :: nat
  page_handle :: nat
  session_id :: string

text \<open>
  The automation engine as the service sees it: the identifier that
  \<open>`session_${Date.now()}_${Math.random().toString(36).slice(2)}`\<close> evaluates to, the
  outcome of the launch sequence (launch, incognito context, new page, user agent; the
  first step that throws gives the error), and the outcome of each page and close call.
\<close>

record engine_env =
  generated_id :: string
  launch :: "js_error + (nat \<times> nat \<times> nat)"
  goto :: "nat \<Rightarrow> string option \<Rightarrow> js_error option"
  innerText :: "nat \<Rightarrow> js_error + string"
  context_close :: "nat \<Rightarrow> js_error option"
  browser_close :: "nat \<Rightarrow> js_error option"
  destructure_error :: js_error

text \<open>
  The fields of the class that its methods read and write. \<open>sessions\<close> is the \<open>Map\<close>, in
  insertion order. The class has no field for a session limit: the
  \<open>resources.maxBrowserSessions\<close> of the configuration module (default 1) is not passed to it.
\<close>

record BrowserService =
  sessions :: "(string \<times> BrowserSession) list"
  isShuttingDown :: bool

definition DEFAULT_maxBrowserSessions :: nat where
  "DEFAULT_maxBrowserSessions = 1"

text \<open>
  A session identifier argument is \<open>None\<close> when the caller passes \<open>undefined\<close>, which
  is never a key of the map.
\<close>

definition sessions_get :: "BrowserService \<Rightarrow> string option \<Rightarrow> BrowserSession option" where
  "sessions_get svc sessionId =
     (case sessionId of None \<Rightarrow> None | Some k \<Rightarrow> map_of (sessions svc) k)"

definition createSession ::
  "engine_env \<Rightarrow> string option \<Rightarrow> BrowserService
   \<Rightarrow> (js_error + BrowserSession) \<times> BrowserService" where
  "createSession env sessionId svc =
     (if isShuttingDown svc then (Inl (Error ''BrowserService is shutting down''), svc)
      else
        let ident = or_else sessionId (generated_id env)
        in case launch env of
             Inl err \<Rightarrow> (Inl err, svc)
           | Inr (b, c, p) \<Rightarrow>
               (let session = \<lparr>browser_handle = b, context_handle = c, page_handle = p, session_id = ident\<rparr>
                in (Inr session,
                    svc\<lparr>sessions := AList.update ident session (sessions svc)\<rparr>)))"

definition getSession :: "BrowserService \<Rightarrow> string option \<Rightarrow> BrowserSession option" where
  "getSession svc ident = sessions_get svc ident"

definition listSessions :: "BrowserService \<Rightarrow> string list" where
  "listSessions svc = map fst (sessions svc)"

text \<open>\<open>`${x}`\<close> for an optional string.\<close>

definition String_of_opt :: "string option \<Rightarrow> string" where
  "String_of_opt s = (case s of None \<Rightarrow> ''undefined'' | Some t \<Rightarrow> t)"

definition session_not_found :: "string option \<Rightarrow> js_error" where
  "session_not_found sessionId = Error (''Session not found: '' @ String_of_opt sessionId)"

definition navigate ::
  "engine_env \<Rightarrow> string option \<Rightarrow> string option \<Rightarrow> BrowserService \<Rightarrow> js_error option" where
  "navigate env sessionId target svc =
     (case sessions_get svc sessionId of
        None \<Rightarrow> Some (session_not_found sessionId)
      | Some session \<Rightarrow> goto env (page_handle session) target)"

definition getTextContent ::
  "engine_env \<Rightarrow> string option \<Rightarrow> BrowserService \<Rightarrow> js_error + string" where
  "getTextContent env sessionId svc =
     (case sessions_get svc sessionId of
        None \<Rightarrow> Inl (session_not_found sessionId)
      | Some session \<Rightarrow> innerText env (page_handle session))"

text \<open>
  \<open>closeSession\<close>: an unknown identifier returns at once. Otherwise the context and then
  the browser are closed inside \<open>try\<close>; an error of either is caught and logged, and
  \<open>finally\<close> deletes the entry, so no outcome of the two calls changes the result.
\<close>

definition closeSession :: "engine_env \<Rightarrow> string option \<Rightarrow> BrowserService \<Rightarrow> BrowserService" where
  "closeSession env sessionId svc =
     (case sessionId of
        None \<Rightarrow> svc
      | Some k \<Rightarrow>
          (case map_of (sessions svc) k of
             None \<Rightarrow> svc
           | Some session \<Rightarrow>
               (case context_close env (context_handle session) of
                  Some err \<Rightarrow> svc\<lparr>sessions := AList.delete k (sessions svc)\<rparr>
                | None \<Rightarrow>
                    (case browser_close env (browser_handle session) of
                       Some err \<Rightarrow> svc\<lparr>sessions := AList.delete k (sessions svc)\<rparr>
                     | None \<Rightarrow> svc\<lparr>sessions := AList.delete k (sessions svc)\<rparr>))))"

definition shutdown :: "engine_env \<Rightarrow> BrowserService \<Rightarrow> BrowserService" where
  "shutdown env svc =
     (if isShuttingDown svc then svc
      else
        (fold (\<lambda>k. closeSession env (Some k)) (map fst (sessions svc))
           (svc\<lparr>isShuttingDown := True\<rparr>))\<lparr>sessions := []\<rparr>)"

section \<open>Gateway (gateway/server.ts)\<close>

record Payload =
  sessionId :: "string option"
  target_url :: "string option"

text \<open>
  A decoded envelope. Each field is \<open>None\<close> when the JSON object lacks it; a \<open>payload\<close>
  of \<open>None\<close> is \<open>undefined\<close> or \<open>null\<close>, which cannot be destructured.
\<close>

record GatewayMessage =
  msg_type :: "string option"
  msg_id :: "string option"
  msg_payload :: "Payload option"

datatype ResponsePayload = SessionIdPayload string | SuccessPayload bool | ContentPayload string

record GatewayResponse =
  resp_type :: string
  resp_id :: "string option"
  resp_payload :: "ResponsePayload option"
  resp_error :: "string option"

record GatewayServer =
  browserService :: "BrowserService option"
  isRunning :: bool

definition error_response :: "string option \<Rightarrow> string \<Rightarrow> GatewayResponse" where
  "error_response i e =
     \<lparr>resp_type = ''error'', resp_id = i, resp_payload = None, resp_error = Some e\<rparr>"

definition success_response ::
  "string \<Rightarrow> string option \<Rightarrow> ResponsePayload option \<Rightarrow> GatewayResponse" where
  "success_response t i p =
     \<lparr>resp_type = t, resp_id = i, resp_payload = p, resp_error = None\<rparr>"

definition BROWSER_DISABLED :: string where
  "BROWSER_DISABLED = ''Browser service is disabled''"

text \<open>
  \<open>handleWebSocketMessage\<close>: the messages handed to \<open>ws.send\<close>, in order, and the server
  afterwards.
\<close>

definition handleWebSocketMessage ::
  "engine_env \<Rightarrow> GatewayServer \<Rightarrow> GatewayMessage \<Rightarrow> GatewayResponse list \<times> GatewayServer" where
  "handleWebSocketMessage env gw message =
     (let ty = msg_type message; i = msg_id message; pl = msg_payload message
      in if ty = Some ''ping'' then ([success_response ''pong'' i None], gw)
         else if ty = Some ''browser.create'' then
           (case browserService gw of
              None \<Rightarrow> ([error_response i BROWSER_DISABLED], gw)
            | Some svc \<Rightarrow>
                (case createSession env None svc of
                   (Inr session, svc') \<Rightarrow>
                     ([success_response ''browser.created'' i
                         (Some (SessionIdPayload (session_id session)))],
                      gw\<lparr>browserService := Some svc'\<rparr>)
                 | (Inl err, svc') \<Rightarrow>
                     ([error_response i (String_of_error err)],
                      gw\<lparr>browserService := Some svc'\<rparr>)))
         else if ty = Some ''browser.navigate'' then
           (case browserService gw of
              None \<Rightarrow> ([error_response i BROWSER_DISABLED], gw)
            | Some svc \<Rightarrow>
                (case pl of
                   None \<Rightarrow> ([error_response i (String_of_error (destructure_error env))], gw)
                 | Some p \<Rightarrow>
                     (case navigate env (sessionId p) (target_url p) svc of
                        None \<Rightarrow>
                          ([success_response ''browser.navigated'' i
                              (Some (SuccessPayload True))], gw)
                      | Some err \<Rightarrow> ([error_response i (String_of_error err)], gw))))
         else if ty = Some ''browser.content'' then
           (case browserService gw of
              None \<Rightarrow> ([error_response i BROWSER_DISABLED], gw)
            | Some svc \<Rightarrow>
                (case pl of
                   None \<Rightarrow> ([error_response i (String_of_error (destructure_error env))], gw)
                 | Some p \<Rightarrow>
                     (case getTextContent env (sessionId p) svc of
                        Inr text \<Rightarrow>
                          ([success_response ''browser.content'' i
                              (Some (ContentPayload (js_slice0 text 5000)))], gw)
                      | Inl err \<Rightarrow> ([error_response i (String_of_error err)], gw))))
         else if ty = Some ''browser.close'' then
           (case browserService gw of
              None \<Rightarrow> ([error_response i BROWSER_DISABLED], gw)
            | Some svc \<Rightarrow>
                (case pl of
                   None \<Rightarrow> ([error_response i (String_of_error (destructure_error env))], gw)
                 | Some p \<Rightarrow>
                     ([success_response ''browser.closed'' i (Some (SuccessPayload True))],
                      gw\<lparr>browserService := Some (closeSession env (sessionId p) svc)\<rparr>)))
         else ([error_response i (''Unknown message type: '' @ String_of_opt ty)], gw))"

section \<open>Concrete runs\<close>

text \<open>
  An automation engine whose launches succeed, whose pages hold 6000 characters of text
  and whose close calls succeed; a service tracking one session, which is as many as
  \<open>DEFAULT_maxBrowserSessions\<close>; a gateway owning that service.
\<close>

definition demo_goto :: "nat \<Rightarrow> string option \<Rightarrow> js_error option" where
  "demo_goto p u = None"

definition demo_innerText :: "nat \<Rightarrow> js_error + string" where
  "demo_innerText p = Inr (replicate 6000 CHR ''a'')"

definition demo_close :: "nat \<Rightarrow> js_error option" where
  "demo_close h = None"

definition demo_engine :: engine_env where
  "demo_engine =
     \<lparr>generated_id = ''session_1700000000000_k3j9x2'',
      launch = Inr (4, 5, 6),
      goto = demo_goto,
      innerText = demo_innerText,
      context_close = demo_close,
      browser_close = demo_close,
      destructure_error = JsError ''TypeError'' ''Cannot destructure property of undefined''\<rparr>"

definition demo_session :: BrowserSession where
  "demo_session =
     \<lparr>browser_handle = 1, context_handle = 2, page_handle = 3, session_id = ''s1''\<rparr>"

definition demo_service :: BrowserService where
  "demo_service = \<lparr>sessions = [(''s1'', demo_session)], isShuttingDown = False\<rparr>"

definition demo_gateway :: GatewayServer where
  "demo_gateway = \<lparr>browserService = Some demo_service, isRunning = True\<rparr>"

definition demo_content_request :: GatewayMessage where
  "demo_content_request =
     \<lparr>msg_type = Some ''browser.content'', msg_id = Some ''7'',
      msg_payload = Some \<lparr>sessionId = Some ''s1'', target_url = None\<rparr>\<rparr>"

definition demo_content_response :: GatewayResponse where
  "demo_content_response =
     \<lparr>resp_type = ''browser.content'', resp_id = Some ''7'',
      resp_payload = Some (ContentPayload (replicate 5000 CHR ''a'')), resp_error = None\<rparr>"

definition demo_close_request :: GatewayMessage where
  "demo_close_request =
     \<lparr>msg_type = Some ''browser.close'', msg_id = Some ''8'',
      msg_payload = Some \<lparr>sessionId = Some ''gone'', target_url = None\<rparr>\<rparr>"

text \<open>
  A network in which the reader answers every request with 5001 characters, and the
  providers are tried in the order of \<open>SEARXNG_INSTANCES\<close>.
\<close>

definition long_reader :: "string \<Rightarrow> reader_reply" where
  "long_reader u = ReaderHttp 200 (replicate 5001 CHR ''x'')"

definition dead_provider :: "string \<Rightarrow> string \<Rightarrow> string \<Rightarrow> provider_reply" where
  "dead_provider inst q lang = Threw"

definition demo_latency :: "request \<Rightarrow> nat" where
  "demo_latency req = 100"

definition demo_hostname :: "string \<Rightarrow> string option" where
  "demo_hostname u = None"

definition dead_env :: search_env where
  "dead_env =
     \<lparr>shuffledInstances = SEARXNG_INSTANCES, provider_reply_of = dead_provider,
      reader_reply_of = long_reader, latency = demo_latency, hostname = demo_hostname\<rparr>"

text \<open>
  A network in which the first three instances tried fail in the three possible ways and
  the fourth answers with three results.
\<close>

definition demo_hit :: "string \<Rightarrow> SearXNGResult" where
  "demo_hit u =
     \<lparr>sx_title = Some ''A page'', sx_url = Some u, sx_content = Some ''A snippet'',
      sx_engine = None\<rparr>"

definition flaky_provider :: "string \<Rightarrow> string \<Rightarrow> string \<Rightarrow> provider_reply" where
  "flaky_provider inst q lang =
     (if inst = ''https://searx.be'' then Http 503 None
      else if inst = ''https://search.sapti.me'' then Http 200 (Some [])
      else if inst = ''https://searx.fmac.xyz''
        then Http 200 (Some [demo_hit ''https://a.example/'', demo_hit ''https://b.example/'',
                             demo_hit ''https://c.example/''])
      else Threw)"

definition flaky_env :: search_env where
  "flaky_env =
     \<lparr>shuffledInstances =
        [''https://searx.be'', ''https://searx.prvcy.eu'', ''https://search.sapti.me'',
         ''https://searx.fmac.xyz'', ''https://searx.dresden.network'',
         ''https://searx.tiekoetter.com'', ''https://searx.nixnet.services'',
         ''https://search.bus-hit.me''],
      provider_reply_of = flaky_provider, reader_reply_of = long_reader,
      latency = demo_latency, hostname = demo_hostname\<rparr>"

text \<open>
  Two callers of \<open>runWebSearch\<close> that ask the same question and differ only in the
  time-to-live their configuration resolves to: 1440 minutes and 1 minute. The module
  starts with an empty cache. The first caller searches while every provider is down; two
  minutes pass and the timer phase runs; then the second caller searches.
\<close>

definition long_ttl_params :: search_params where
  "long_ttl_params =
     \<lparr>sp_query = ''test'', sp_count = 5, timeoutSeconds = 30, cacheTtlMs = 86400000,
      language = None, fetchContent = Some True\<rparr>"

definition short_ttl_params :: search_params where
  "short_ttl_params =
     \<lparr>sp_query = ''test'', sp_count = 5, timeoutSeconds = 30, cacheTtlMs = 60000,
      language = None, fetchContent = Some True\<rparr>"

definition initial_state :: "SearchPayload web_state" where
  "initial_state = \<lparr>now = 1700000000000, cache = Map.empty, timers = [], requests = []\<rparr>"

definition two_minutes_later :: "SearchPayload web_state" where
  "two_minutes_later =
     run_due_timers (elapse 120000 (snd (runWebSearch dead_env long_ttl_params initial_state)))"

definition no_results_payload :: SearchPayload where
  "no_results_payload =
     \<lparr>query = ''test'', provider = ''searxng'', instance_name = None, result_count = 0,
      tookMs = 800, error_text = Some ''No results found from any SearXNG instance'',
      externalContent = None, results = [], cached = None\<rparr>"

section \<open>Properties of the Content Guard\<close>

lemma js_slice0_nonneg: "0 \<le> e \<Longrightarrow> js_slice0 xs e = take (nat e) xs"
  by (simp add: js_slice0_def)

lemma length_js_slice0: "0 \<le> e \<Longrightarrow> int (length (js_slice0 xs e)) \<le> e"
  by (simp add: js_slice0_def)

lemma length_js_slice0_le: "length (js_slice0 xs e) \<le> length xs"
  by (auto simp: js_slice0_def)

text \<open>
  C10. \<open>wrapWebContent\<close> returns the empty string for empty content, with no marker
  added; for non-empty content the result is the opening \<open>EXTERNAL_CONTENT\<close> marker
  (with its source label, if any), a line break, the content unchanged, a line break and
  the \<open>END_EXTERNAL_CONTENT\<close> marker.
\<close>

theorem wrapWebContent_markers:
  "wrapWebContent [] src = [] \<and>
   (c \<noteq> [] \<longrightarrow>
      (\<exists>label. wrapWebContent c src =
         ''<!-- EXTERNAL_CONTENT'' @ label @ '' -->'' @ [newline] @ c @ [newline]
         @ ''<!-- END_EXTERNAL_CONTENT -->''))"
  by (simp add: wrapWebContent_def Let_def)

theorem wrapWebContent_markers_witness:
  "''x'' \<noteq> [] \<and>
   (\<exists>label. wrapWebContent ''x'' (Some ''web_search'') =
         ''<!-- EXTERNAL_CONTENT'' @ label @ '' -->'' @ [newline] @ ''x'' @ [newline]
         @ ''<!-- END_EXTERNAL_CONTENT -->'')"
  using wrapWebContent_markers [of "Some ''web_search''" "''x''"] by simp

text \<open>After a truncation to a non-negative maximum the content is no longer than it.\<close>

lemma length_truncateContent:
  assumes "0 \<le> m"
  shows "int (length (truncateContent c m opts)) \<le> m"
proof (cases "c = [] \<or> int (length c) \<le> m")
  case True
  then show ?thesis using assms by (auto simp: truncateContent_def)
next
  case False
  define sfx where
    "sfx = (case Option.bind opts suffix of None \<Rightarrow> DEFAULT_SUFFIX | Some s \<Rightarrow> s)"
  define avail where "avail = m - int (length sfx)"
  show ?thesis
  proof (cases "avail \<le> 0")
    case True
    then have "truncateContent c m opts = js_slice0 c m"
      using False by (simp add: truncateContent_def Let_def sfx_def avail_def)
    then show ?thesis using assms by (simp add: length_js_slice0)
  next
    case pos: False
    have plain: "int (length (js_slice0 c avail)) \<le> avail"
      using pos by (simp add: length_js_slice0)
    have cut: "int (length (js_slice0 (js_slice0 c avail) k)) \<le> avail" for k
      using plain length_js_slice0_le [of "js_slice0 c avail" k] by linarith
    have big: "\<not> m \<le> int (length sfx)"
      using pos by (simp add: avail_def)
    have "\<exists>t. truncateContent c m opts = t @ sfx \<and> int (length t) \<le> avail"
      using False big plain cut
      by (simp add: truncateContent_def Let_def sfx_def [symmetric] avail_def [symmetric])
    then show ?thesis by (auto simp: avail_def)
  qed
qed

text \<open>
  C8, as stated, fails for a negative maximum length: \<open>truncateContent("abc", -1)\<close> is
  \<open>"ab"\<close>, because \<open>slice(0, -1)\<close> drops the last character, and truncating \<open>"ab"\<close>
  again with the same maximum gives \<open>"a"\<close>.
\<close>

theorem truncateContent_negative_counterexample:
  "truncateContent (truncateContent ''abc'' (- 1) None) (- 1) None
   \<noteq> truncateContent ''abc'' (- 1) None"
  by (simp add: truncateContent_def js_slice0_def DEFAULT_SUFFIX_def)

text \<open>
  C8, amended. For every content string, every non-negative maximum length and every
  choice of options, truncating the result of \<open>truncateContent\<close> again with the same or
  a larger maximum length (and any options) returns that result unchanged.
\<close>

theorem truncateContent_idempotent:
  assumes "0 \<le> maxLength" and "maxLength \<le> maxLength'"
  shows "truncateContent (truncateContent c maxLength opts) maxLength' opts'
         = truncateContent c maxLength opts"
  using assms length_truncateContent [of maxLength c opts]
  by (simp add: truncateContent_def [of "truncateContent c maxLength opts"])

theorem truncateContent_idempotent_witness:
  "(0::int) \<le> 30 \<and> (30::int) \<le> 31
   \<and> truncateContent (truncateContent (replicate 40 CHR ''a'') 30 None) 31 None
      = truncateContent (replicate 40 CHR ''a'') 30 None"
  using truncateContent_idempotent [of 30 31 "replicate 40 CHR ''a''" None None] by simp

text \<open>
  C7. When the reader answers with a 2xx status, \<open>fetchWithJinaReader\<close> returns a body
  of more than 5000 characters cut to its first 5000 characters and followed by the
  marker \<open>"\n...[content truncated]"\<close> (a line feed and 22 further characters), so the
  marker comes on top of the 5000 characters of content; a body of 5000 characters or
  fewer is returned unchanged, with no marker.
\<close>

theorem fetchWithJinaReader_truncates:
  assumes "reader_reply_of env (jina_url u) = ReaderHttp status body"
    and "response_ok status"
  shows "(length body > 5000 \<longrightarrow>
            fst (fetchWithJinaReader env u t st)
              = Some (take 5000 body @ CHR 0x0A # ''...[content truncated]'')
            \<and> length (take 5000 body) = 5000)
         \<and> (length body \<le> 5000 \<longrightarrow> fst (fetchWithJinaReader env u t st) = Some body)"
  using assms
  by (simp add: fetchWithJinaReader_def Let_def MAX_CONTENT_LENGTH_def js_slice0_def
      TRUNCATION_MARKER_def newline_def)

theorem fetchWithJinaReader_truncates_witness:
  "reader_reply_of dead_env (jina_url ''https://example.org/a'')
     = ReaderHttp 200 (replicate 5001 CHR ''x'')
   \<and> response_ok 200
   \<and> length (replicate 5001 CHR ''x'') > 5000
   \<and> fst (fetchWithJinaReader dead_env ''https://example.org/a'' 10 initial_state)
       = Some (replicate 5000 CHR ''x'' @ CHR 0x0A # ''...[content truncated]'')"
proof -
  have r: "reader_reply_of dead_env (jina_url ''https://example.org/a'')
             = ReaderHttp 200 (replicate 5001 CHR ''x'')"
    by (simp add: dead_env_def long_reader_def)
  have ok: "response_ok 200"
    by (simp add: response_ok_def)
  show ?thesis
    using fetchWithJinaReader_truncates [OF r ok, of 10 initial_state] r ok by simp
qed

section \<open>Properties of the cache key\<close>

lemma char_eq_code: "c = d \<longleftrightarrow> (of_char c :: nat) = of_char d"
  by (metis of_char_eq_iff)

lemma is_space_code:
  "is_space c \<longleftrightarrow> (of_char c :: nat) \<in> {9, 10, 11, 12, 13, 32, 160}"
  unfolding is_space_def insert_iff empty_iff
  by (simp add: char_eq_code [of c])

lemma key_char_code:
  "key_char c \<longleftrightarrow>
     (let n = (of_char c :: nat)
      in (97 \<le> n \<and> n \<le> 122) \<or> (48 \<le> n \<and> n \<le> 57) \<or> n = 95 \<or> n = 45)"
  unfolding key_char_def Let_def list.set insert_iff empty_iff
  apply (simp add: char_eq_code [of c])
  apply arith
  done

lemma key_char_not_space: "key_char c \<Longrightarrow> \<not> is_space c"
  unfolding key_char_code is_space_code Let_def insert_iff empty_iff by arith

lemma key_char_lower:
  assumes "key_char c"
  shows "lower_char c = c"
proof -
  have "\<not> ((65 \<le> (of_char c :: nat) \<and> (of_char c :: nat) \<le> 90)
          \<or> (192 \<le> (of_char c :: nat) \<and> (of_char c :: nat) \<le> 222
              \<and> (of_char c :: nat) \<noteq> 215))"
    using assms unfolding key_char_code Let_def by arith
  then show ?thesis
    unfolding lower_char_def Let_def by (rule if_not_P)
qed

lemma lower_char_space:
  assumes "is_space c"
  shows "lower_char c = c"
proof -
  have "\<not> ((65 \<le> (of_char c :: nat) \<and> (of_char c :: nat) \<le> 90)
          \<or> (192 \<le> (of_char c :: nat) \<and> (of_char c :: nat) \<le> 222
              \<and> (of_char c :: nat) \<noteq> 215))"
    using assms unfolding is_space_code insert_iff empty_iff by arith
  then show ?thesis
    unfolding lower_char_def Let_def by (rule if_not_P)
qed

lemma key_char_underscore: "key_char CHR ''_''"
  by (simp add: key_char_def)

lemma key_chars_replace_non_key: "\<forall>c \<in> set (replace_non_key s). key_char c"
  by (auto simp: replace_non_key_def key_char_underscore)

lemma set_js_slice0: "set (js_slice0 xs e) \<subseteq> set xs"
  by (auto simp: js_slice0_def dest: in_set_takeD)

lemma key_chars_normalizeCacheKey: "\<forall>c \<in> set (normalizeCacheKey k). key_char c"
  unfolding normalizeCacheKey_def
  using key_chars_replace_non_key [of "replace_space_runs (trim (toLowerCase k))"]
    set_js_slice0 [of "replace_non_key (replace_space_runs (trim (toLowerCase k)))" 256]
  by (meson subsetD)

lemma length_normalizeCacheKey: "length (normalizeCacheKey k) \<le> 256"
  by (simp add: normalizeCacheKey_def js_slice0_def)

lemma replace_space_runs_id: "\<forall>c \<in> set s. \<not> is_space c \<Longrightarrow> replace_space_runs s = s"
  by (induction s) simp_all

lemma dropWhile_none: "\<forall>c \<in> set s. \<not> P c \<Longrightarrow> dropWhile P s = s"
  by (cases s) simp_all

lemma trim_id: "\<forall>c \<in> set s. \<not> is_space c \<Longrightarrow> trim s = s"
  by (simp add: trim_def dropWhile_none)

text \<open>A string over the key alphabet of at most 256 characters is its own key.\<close>

lemma normalizeCacheKey_fixed:
  assumes "\<forall>c \<in> set y. key_char c" and "length y \<le> 256"
  shows "normalizeCacheKey y = y"
proof -
  have ns: "\<forall>c \<in> set y. \<not> is_space c"
    using assms(1) key_char_not_space by blast
  have "toLowerCase y = y"
    using assms(1) by (simp add: toLowerCase_def key_char_lower map_idI)
  moreover have "replace_non_key y = y"
    using assms(1) by (simp add: replace_non_key_def map_idI)
  ultimately show ?thesis
    using ns assms(2)
    by (simp add: normalizeCacheKey_def trim_id replace_space_runs_id js_slice0_def)
qed

lemma dropWhile_all: "\<forall>c \<in> set w. P c \<Longrightarrow> dropWhile P (w @ v) = dropWhile P v"
  by (simp add: dropWhile_append2)

lemma replace_space_runs_run:
  assumes "w \<noteq> []" and "\<forall>c \<in> set w. is_space c"
  shows "replace_space_runs (w @ b) = CHR ''_'' # replace_space_runs (dropWhile is_space b)"
proof (cases w)
  case Nil
  then show ?thesis using assms by simp
next
  case (Cons c cs)
  then show ?thesis using assms by (simp add: dropWhile_all)
qed

text \<open>Inside a string, the length of a run of white space does not matter.\<close>

lemma replace_space_runs_inner:
  assumes "w1 \<noteq> []" "\<forall>c \<in> set w1. is_space c" "w2 \<noteq> []" "\<forall>c \<in> set w2. is_space c"
  shows "replace_space_runs (a @ w1 @ b) = replace_space_runs (a @ w2 @ b)"
proof (induction a rule: replace_space_runs.induct)
  case 1
  show ?case using assms by (simp add: replace_space_runs_run)
next
  case (2 c cs)
  show ?case
  proof (cases "is_space c")
    case False
    then show ?thesis using 2 by simp
  next
    case True
    show ?thesis
    proof (cases "\<forall>x \<in> set cs. is_space x")
      case all: True
      have "dropWhile is_space (cs @ w @ b) = dropWhile is_space b"
        if "\<forall>c \<in> set w. is_space c" for w
        using that all dropWhile_all [of "cs @ w" is_space b] by auto
      then show ?thesis using True assms by simp
    next
      case False
      then obtain x where "x \<in> set cs" "\<not> is_space x" by blast
      then have "dropWhile is_space (cs @ r) = dropWhile is_space cs @ r" for r
        by (simp add: dropWhile_append1)
      then show ?thesis using True 2(1) by simp
    qed
  qed
qed

text \<open>The same after trimming, where a run at either end disappears altogether.\<close>

lemma trim_replace_runs:
  assumes "w1 \<noteq> []" "\<forall>c \<in> set w1. is_space c" "w2 \<noteq> []" "\<forall>c \<in> set w2. is_space c"
  shows "replace_space_runs (trim (u @ w1 @ v)) = replace_space_runs (trim (u @ w2 @ v))"
proof (cases "\<forall>x \<in> set u. is_space x")
  case True
  then have "dropWhile is_space (u @ w @ v) = dropWhile is_space v"
    if "\<forall>c \<in> set w. is_space c" for w
    using that dropWhile_all [of "u @ w" is_space v] by auto
  then show ?thesis using assms by (simp add: trim_def)
next
  case False
  then obtain x where x: "x \<in> set u" "\<not> is_space x" by blast
  define u' where "u' = dropWhile is_space u"
  have left: "dropWhile is_space (u @ r) = u' @ r" for r
    using x by (simp add: dropWhile_append1 u'_def)
  show ?thesis
  proof (cases "\<forall>y \<in> set v. is_space y")
    case True
    have "dropWhile is_space (rev (u' @ w @ v)) = dropWhile is_space (rev u')"
      if "\<forall>c \<in> set w. is_space c" for w
      using that True dropWhile_all [of "rev v @ rev w" is_space "rev u'"] by auto
    then show ?thesis using assms by (simp add: trim_def left)
  next
    case False
    then obtain y where y: "y \<in> set v" "\<not> is_space y" by blast
    define v' where "v' = rev (dropWhile is_space (rev v))"
    have "dropWhile is_space (rev (u' @ w @ v))
            = dropWhile is_space (rev v) @ rev w @ rev u'" for w
      using y by (simp add: dropWhile_append1)
    then have "trim (u @ w @ v) = u' @ w @ v'" for w
      by (simp add: trim_def left v'_def)
    then show ?thesis
      using replace_space_runs_inner [OF assms] by simp
  qed
qed

lemma toLowerCase_spaces: "list_all is_space w \<Longrightarrow> toLowerCase w = w"
  by (simp add: toLowerCase_def list_all_iff lower_char_space map_idI)

text \<open>
  C9. \<open>normalizeCacheKey\<close> is idempotent; every key has at most 256 characters, all of
  them from \<open>[a-z0-9_-]\<close>; two inputs with the same lower-case form have the same key; and
  two inputs that differ only in which white space a run consists of, and how much, have
  the same key.
\<close>

theorem normalizeCacheKey_canonical:
  "normalizeCacheKey (normalizeCacheKey k) = normalizeCacheKey k
   \<and> length (normalizeCacheKey k) \<le> 256
   \<and> list_all key_char (normalizeCacheKey k)
   \<and> (toLowerCase a = toLowerCase b \<longrightarrow> normalizeCacheKey a = normalizeCacheKey b)
   \<and> (w1 \<noteq> [] \<and> list_all is_space w1 \<and> w2 \<noteq> [] \<and> list_all is_space w2 \<longrightarrow>
        normalizeCacheKey (u @ w1 @ v) = normalizeCacheKey (u @ w2 @ v))"
proof -
  have idem: "normalizeCacheKey (normalizeCacheKey k) = normalizeCacheKey k"
    by (rule normalizeCacheKey_fixed [OF key_chars_normalizeCacheKey length_normalizeCacheKey])
  have chars: "list_all key_char (normalizeCacheKey k)"
    using key_chars_normalizeCacheKey [of k] by (simp add: list_all_iff)
  have "case": "normalizeCacheKey a = normalizeCacheKey b" if "toLowerCase a = toLowerCase b"
    using that by (simp add: normalizeCacheKey_def)
  have runs: "normalizeCacheKey (u @ w1 @ v) = normalizeCacheKey (u @ w2 @ v)"
    if "w1 \<noteq> []" "list_all is_space w1" "w2 \<noteq> []" "list_all is_space w2"
  proof -
    have "toLowerCase (u @ w @ v) = toLowerCase u @ w @ toLowerCase v"
      if "list_all is_space w" for w
      using toLowerCase_spaces [OF that] by (simp add: toLowerCase_def)
    moreover have
      "replace_space_runs (trim (toLowerCase u @ w1 @ toLowerCase v))
       = replace_space_runs (trim (toLowerCase u @ w2 @ toLowerCase v))"
      using that by (intro trim_replace_runs) (simp_all add: list_all_iff)
    ultimately show ?thesis
      using that by (simp add: normalizeCacheKey_def)
  qed
  show ?thesis
    using idem length_normalizeCacheKey [of k] chars "case" runs by blast
qed

theorem normalizeCacheKey_canonical_witness:
  "normalizeCacheKey (normalizeCacheKey ''SearXNG:Hello  World'')
     = normalizeCacheKey ''SearXNG:Hello  World''
   \<and> length (normalizeCacheKey ''SearXNG:Hello  World'') \<le> 256
   \<and> list_all key_char (normalizeCacheKey ''SearXNG:Hello  World'')
   \<and> toLowerCase ''Hello'' = toLowerCase ''hELLO''
   \<and> normalizeCacheKey ''Hello'' = normalizeCacheKey ''hELLO''
   \<and> list_all is_space [CHR '' '', CHR 0x09] \<and> list_all is_space '' ''
   \<and> normalizeCacheKey (''a'' @ [CHR '' '', CHR 0x09] @ ''b'')
       = normalizeCacheKey (''a'' @ '' '' @ ''b'')"
proof -
  have low: "toLowerCase ''Hello'' = toLowerCase ''hELLO''"
    by code_simp
  have sp1: "list_all is_space [CHR '' '', CHR 0x09]" and sp2: "list_all is_space '' ''"
    by (simp_all add: is_space_def)
  show ?thesis
    using normalizeCacheKey_canonical
      [of "''SearXNG:Hello  World''" "''Hello''" "''hELLO''" "[CHR '' '', CHR 0x09]" "'' ''"
        "''a''" "''b''"]
      low sp1 sp2
    by simp
qed

section \<open>Properties of the Search Pipeline\<close>

lemma requests_fold_issue:
  "requests (fold (\<lambda>i. issue env (SearchRequest i q lang)) xs st)
     = requests st @ map (\<lambda>i. SearchRequest i q lang) xs"
  by (induction xs arbitrary: st) (simp_all add: issue_def)

text \<open>Instances that fail are passed over; each of them has been sent one request.\<close>

lemma try_instances_skip:
  assumes "list_all (\<lambda>i. provider_failed (provider_reply_of env i q (or_else lang ''en-US''))) pre"
  shows "try_instances env q cnt lang (pre @ rest) st
         = try_instances env q cnt lang rest
             (fold (\<lambda>i. issue env (SearchRequest i q (or_else lang ''en-US''))) pre st)"
  using assms
proof (induction pre arbitrary: st)
  case Nil
  then show ?case by simp
next
  case (Cons i pre)
  then show ?case
    by (auto simp: provider_failed_def Let_def
        split: provider_reply.splits option.splits if_splits)
qed

lemma try_instances_all_failed:
  assumes "list_all (\<lambda>i. provider_failed (provider_reply_of env i q (or_else lang ''en-US''))) xs"
  shows "try_instances env q cnt lang xs st
         = (None, fold (\<lambda>i. issue env (SearchRequest i q (or_else lang ''en-US''))) xs st)"
  using try_instances_skip [OF assms, of cnt "[]" st] by simp

text \<open>
  C5. Let the shuffled order be \<open>pre @ p # post\<close>. If every instance of \<open>pre\<close> throws,
  answers with a status outside 2xx or answers without results, and \<open>p\<close> answers with a
  2xx status and a non-empty \<open>results\<close> array, then \<open>searchWithSearXNG\<close> returns the
  results of \<open>p\<close> cut by \<open>slice(0, count)\<close> together with \<open>p\<close>, and the requests it has
  issued are one to each instance of \<open>pre\<close>, in order, then one to \<open>p\<close>: none to \<open>post\<close>.
\<close>

theorem searchWithSearXNG_failover:
  assumes "shuffledInstances env = pre @ p # post"
    and "list_all (\<lambda>i. provider_failed (provider_reply_of env i q (or_else lang ''en-US''))) pre"
    and "provider_reply_of env p q (or_else lang ''en-US'') = Http status (Some rs)"
    and "response_ok status"
    and "rs \<noteq> []"
  shows "fst (searchWithSearXNG env q cnt lang timeout st) = Some (js_slice0 rs cnt, p)
         \<and> requests (snd (searchWithSearXNG env q cnt lang timeout st))
             = requests st @ map (\<lambda>i. SearchRequest i q (or_else lang ''en-US'')) (pre @ [p])
         \<and> (0 \<le> cnt \<longrightarrow> int (length (js_slice0 rs cnt)) \<le> cnt)"
proof -
  define st' where
    "st' = fold (\<lambda>i. issue env (SearchRequest i q (or_else lang ''en-US''))) pre st"
  have "searchWithSearXNG env q cnt lang timeout st = try_instances env q cnt lang (p # post) st'"
    unfolding searchWithSearXNG_def assms(1) st'_def
    by (rule try_instances_skip [OF assms(2)])
  also have "\<dots> = (Some (js_slice0 rs cnt, p),
                      issue env (SearchRequest p q (or_else lang ''en-US'')) st')"
    using assms(3-5) by (simp add: Let_def)
  finally show ?thesis
    by (simp add: st'_def requests_fold_issue issue_def length_js_slice0)
qed

theorem searchWithSearXNG_failover_witness:
  "fst (searchWithSearXNG flaky_env ''test'' 2 None 30 initial_state)
     = Some ([demo_hit ''https://a.example/'', demo_hit ''https://b.example/''],
             ''https://searx.fmac.xyz'')
   \<and> requests (snd (searchWithSearXNG flaky_env ''test'' 2 None 30 initial_state))
     = [SearchRequest ''https://searx.be'' ''test'' ''en-US'',
        SearchRequest ''https://searx.prvcy.eu'' ''test'' ''en-US'',
        SearchRequest ''https://search.sapti.me'' ''test'' ''en-US'',
        SearchRequest ''https://searx.fmac.xyz'' ''test'' ''en-US'']"
proof -
  have order: "shuffledInstances flaky_env
      = [''https://searx.be'', ''https://searx.prvcy.eu'', ''https://search.sapti.me'']
        @ ''https://searx.fmac.xyz''
        # [''https://searx.dresden.network'', ''https://searx.tiekoetter.com'',
           ''https://searx.nixnet.services'', ''https://search.bus-hit.me'']"
    by (simp add: flaky_env_def)
  have failed: "list_all
      (\<lambda>i. provider_failed (provider_reply_of flaky_env i ''test'' (or_else None ''en-US'')))
      [''https://searx.be'', ''https://searx.prvcy.eu'', ''https://search.sapti.me'']"
    by (simp add: flaky_env_def flaky_provider_def provider_failed_def response_ok_def)
  have answer: "provider_reply_of flaky_env ''https://searx.fmac.xyz'' ''test''
        (or_else None ''en-US'')
      = Http 200 (Some [demo_hit ''https://a.example/'', demo_hit ''https://b.example/'',
                        demo_hit ''https://c.example/''])"
    by (simp add: flaky_env_def flaky_provider_def)
  have ok: "response_ok 200"
    by (simp add: response_ok_def)
  have nonempty: "[demo_hit ''https://a.example/'', demo_hit ''https://b.example/'',
                   demo_hit ''https://c.example/''] \<noteq> []"
    by simp
  show ?thesis
    using searchWithSearXNG_failover [OF order failed answer ok nonempty, of 2 30 initial_state]
    by (simp add: js_slice0_def initial_state_def or_else_def)
qed

text \<open>
  C6. When the cache holds no entry for the key of the request and every instance in the
  shuffled order throws, answers with a status outside 2xx or answers without results,
  \<open>runWebSearch\<close> returns (it does not throw) a payload with \<open>results = []\<close>,
  \<open>count = 0\<close> and \<open>error = "No results found from any SearXNG instance"\<close>, and the
  cache afterwards holds exactly the returned payload under that key, stamped with the
  time of the write.
\<close>

theorem runWebSearch_all_failed:
  assumes "readCache (cache st) (search_cache_key params) = None"
    and "list_all
           (\<lambda>i. provider_failed
                  (provider_reply_of env i (sp_query params) (or_else (language params) ''en-US'')))
           (shuffledInstances env)"
  shows "results (fst (runWebSearch env params st)) = []
         \<and> result_count (fst (runWebSearch env params st)) = 0
         \<and> error_text (fst (runWebSearch env params st))
             = Some ''No results found from any SearXNG instance''
         \<and> cache (snd (runWebSearch env params st)) (search_cache_key params)
             = Some \<lparr>entry_value = fst (runWebSearch env params st),
                      timestamp = now (snd (runWebSearch env params st))\<rparr>"
  using assms(1) try_instances_all_failed [OF assms(2), of "sp_count params" st]
  by (simp add: runWebSearch_def searchWithSearXNG_def Let_def writeCache_def NO_RESULTS_ERROR_def)

lemma test_key: "search_cache_key long_ttl_params = ''searxng_test_5_default_true''"
  by (simp add: search_cache_key_def long_ttl_params_def normalizeCacheKey_def toLowerCase_def
      lower_char_def trim_def is_space_def replace_non_key_def key_char_def js_slice0_def
      String_of_int_def String_of_bool_def or_else_def digit_char_def)

lemma test_key_short: "search_cache_key short_ttl_params = ''searxng_test_5_default_true''"
  by (simp add: search_cache_key_def short_ttl_params_def normalizeCacheKey_def toLowerCase_def
      lower_char_def trim_def is_space_def replace_non_key_def key_char_def js_slice0_def
      String_of_int_def String_of_bool_def or_else_def digit_char_def)

text \<open>The first caller's run: eight requests of 100 ms each, then the write.\<close>

lemma first_run:
  "runWebSearch dead_env long_ttl_params initial_state =
     (no_results_payload,
      \<lparr>now = 1700000000800,
       cache = [''searxng_test_5_default_true'' \<mapsto>
                  \<lparr>entry_value = no_results_payload, timestamp = 1700000000800\<rparr>],
       timers = [(1700086400800, ''searxng_test_5_default_true'', 86400000)],
       requests = map (\<lambda>i. SearchRequest i ''test'' ''en-US'') SEARXNG_INSTANCES\<rparr>)"
  by (simp add: runWebSearch_def test_key [unfolded long_ttl_params_def] readCache_def
      initial_state_def Let_def
      searchWithSearXNG_def dead_env_def SEARXNG_INSTANCES_def dead_provider_def issue_def
      demo_latency_def writeCache_def no_results_payload_def NO_RESULTS_ERROR_def
      long_ttl_params_def or_else_def)

theorem runWebSearch_all_failed_witness:
  "readCache (cache initial_state) (search_cache_key long_ttl_params) = None
   \<and> list_all provider_failed (map (\<lambda>i. dead_provider i ''test'' ''en-US'') SEARXNG_INSTANCES)
   \<and> fst (runWebSearch dead_env long_ttl_params initial_state) = no_results_payload
   \<and> results no_results_payload = []
   \<and> result_count no_results_payload = 0
   \<and> error_text no_results_payload = Some ''No results found from any SearXNG instance''
   \<and> cache (snd (runWebSearch dead_env long_ttl_params initial_state))
        ''searxng_test_5_default_true''
       = Some \<lparr>entry_value = no_results_payload, timestamp = 1700000000800\<rparr>"
proof -
  have miss: "readCache (cache initial_state) (search_cache_key long_ttl_params) = None"
    by (simp add: readCache_def initial_state_def)
  have dead: "list_all
      (\<lambda>i. provider_failed
             (provider_reply_of dead_env i (sp_query long_ttl_params)
                (or_else (language long_ttl_params) ''en-US'')))
      (shuffledInstances dead_env)"
    by (simp add: dead_env_def dead_provider_def provider_failed_def SEARXNG_INSTANCES_def)
  have dead': "list_all provider_failed
      (map (\<lambda>i. dead_provider i ''test'' ''en-US'') SEARXNG_INSTANCES)"
    by (simp add: dead_provider_def provider_failed_def SEARXNG_INSTANCES_def)
  show ?thesis
    using runWebSearch_all_failed [OF miss dead] miss dead'
    by (simp add: first_run test_key)
qed

section \<open>Properties of the Content Cache\<close>

lemma later_state:
  "two_minutes_later =
      \<lparr>now = 1700000120800,
       cache = [''searxng_test_5_default_true'' \<mapsto>
                  \<lparr>entry_value = no_results_payload, timestamp = 1700000000800\<rparr>],
       timers = [(1700086400800, ''searxng_test_5_default_true'', 86400000)],
       requests = map (\<lambda>i. SearchRequest i ''test'' ''en-US'') SEARXNG_INSTANCES\<rparr>"
  by (simp add: two_minutes_later_def first_run elapse_def run_due_timers_def)

text \<open>
  C1, as stated, fails. The entry written by the first caller is 120000 ms old when the
  second caller, whose time-to-live is 60000 ms, looks the key up: \<open>isCacheValid\<close> says
  the entry is not valid at that time, yet \<open>readCache\<close> returns it and \<open>runWebSearch\<close>
  answers with it as a cache hit, issuing no request. No cleanup was due in between: the
  one scheduled at the write waits for the writer's 86400000 ms.
\<close>

theorem stale_entry_served_counterexample:
  "fst (runWebSearch dead_env short_ttl_params two_minutes_later)
     = no_results_payload\<lparr>cached := Some True\<rparr>
   \<and> requests (snd (runWebSearch dead_env short_ttl_params two_minutes_later))
     = requests two_minutes_later
   \<and> \<not> isCacheValid
         (readCache (cache two_minutes_later) (search_cache_key short_ttl_params))
         (cacheTtlMs short_ttl_params) (now two_minutes_later)"
proof -
  have ttl: "cacheTtlMs short_ttl_params = 60000"
    by (simp add: short_ttl_params_def)
  show ?thesis
    by (simp add: later_state runWebSearch_def test_key_short readCache_def isCacheValid_def
        Let_def ttl)
qed

text \<open>
  C1, amended. \<open>readCache\<close> returns the stored entry whenever the map holds one for the
  key, whatever its age, and \<open>runWebSearch\<close> then answers with the stored payload marked
  \<open>cached = true\<close> and changes nothing (no request, no write). An entry leaves the map
  only through the cleanup that \<open>writeCache\<close> schedules: after a write and \<open>d\<close>
  milliseconds the entry is still returned as long as the cleanup has not run, and once
  the cleanup has run it is gone exactly when \<open>d\<close> is at least the time-to-live of the
  write.
\<close>

theorem present_entry_is_a_hit:
  assumes "cache st (search_cache_key params) = Some e"
  shows "runWebSearch env params st = ((entry_value e)\<lparr>cached := Some True\<rparr>, st)
         \<and> readCache (cache (elapse d (writeCache key v ttl s))) key
             = Some \<lparr>entry_value = v, timestamp = now s\<rparr>
         \<and> readCache (cache (cleanup key ttl (elapse d (writeCache key v ttl s)))) key
             = (if d \<ge> ttl then None else Some \<lparr>entry_value = v, timestamp = now s\<rparr>)"
  using assms
  by (simp add: runWebSearch_def readCache_def Let_def elapse_def writeCache_def cleanup_def)

theorem present_entry_is_a_hit_witness:
  "cache two_minutes_later (search_cache_key short_ttl_params)
     = Some \<lparr>entry_value = no_results_payload, timestamp = 1700000000800\<rparr>
   \<and> runWebSearch dead_env short_ttl_params two_minutes_later
     = (no_results_payload\<lparr>cached := Some True\<rparr>, two_minutes_later)
   \<and> readCache (cache (elapse 60000 (writeCache ''k'' no_results_payload 60000 initial_state)))
        ''k''
     = Some \<lparr>entry_value = no_results_payload, timestamp = 1700000000000\<rparr>
   \<and> readCache
        (cache (cleanup ''k'' 60000
                  (elapse 60000 (writeCache ''k'' no_results_payload 60000 initial_state))))
        ''k''
     = None"
proof -
  have present: "cache two_minutes_later (search_cache_key short_ttl_params)
      = Some \<lparr>entry_value = no_results_payload, timestamp = 1700000000800\<rparr>"
    by (simp add: later_state test_key_short)
  show ?thesis
    using present_entry_is_a_hit
      [OF present, of dead_env 60000 "''k''" no_results_payload 60000 initial_state]
      present
    by (simp add: initial_state_def)
qed

section \<open>Properties of the Browser Session Manager and the Gateway\<close>

text \<open>
  C2. A \<open>createSession\<close> call made while the service already tracks as many sessions
  as the configured maximum should fail with an error. The code does not: it tests only
  \<open>isShuttingDown\<close>. \<open>demo_service\<close> tracks as many sessions as
  \<open>DEFAULT_maxBrowserSessions\<close> allows; \<open>createSession\<close> on it, with an engine whose
  launch succeeds, returns a new session and leaves two tracked.
\<close>

theorem createSession_beyond_limit:
  "length (sessions demo_service) = DEFAULT_maxBrowserSessions
   \<and> createSession demo_engine None demo_service =
       (Inr \<lparr>browser_handle = 4, context_handle = 5, page_handle = 6,
              session_id = ''session_1700000000000_k3j9x2''\<rparr>,
        \<lparr>sessions =
           [(''s1'', demo_session),
            (''session_1700000000000_k3j9x2'',
             \<lparr>browser_handle = 4, context_handle = 5, page_handle = 6,
              session_id = ''session_1700000000000_k3j9x2''\<rparr>)],
         isShuttingDown = False\<rparr>)"
  by (simp add: createSession_def demo_service_def demo_engine_def or_else_def Let_def
      DEFAULT_maxBrowserSessions_def)

lemma map_of_delete_same: "map_of (AList.delete k xs) k = None"
  by (simp add: AList.delete_eq map_of_eq_None_iff image_iff)

lemma closeSession_sessions:
  "sessions (closeSession env k svc) =
     (case k of None \<Rightarrow> sessions svc | Some k' \<Rightarrow> AList.delete k' (sessions svc))"
  by (auto simp: closeSession_def AList.delete_id map_of_eq_None_iff split: option.splits)

text \<open>
  C3. With the browser service enabled, a \<open>browser.close\<close> request that carries a
  payload is answered by exactly one message, \<open>browser.closed\<close> with \<open>success = true\<close>
  and the request's id, whatever the session identifier in it (known, unknown, closed
  before, or missing from the payload). \<open>closeSession\<close> on an identifier that is not
  tracked changes nothing, and closing a second time is the same as closing once.
\<close>

theorem browser_close_never_errors:
  assumes "browserService gw = Some svc"
    and "msg_type m = Some ''browser.close''"
    and "msg_payload m = Some p"
  shows "handleWebSocketMessage env gw m =
           ([\<lparr>resp_type = ''browser.closed'', resp_id = msg_id m,
              resp_payload = Some (SuccessPayload True), resp_error = None\<rparr>],
            gw\<lparr>browserService := Some (closeSession env (sessionId p) svc)\<rparr>)
         \<and> (sessions_get svc k = None \<longrightarrow> closeSession env k svc = svc)
         \<and> closeSession env k (closeSession env k svc) = closeSession env k svc"
proof -
  have "sessions_get (closeSession env k svc) k = None"
    by (cases k) (simp_all add: sessions_get_def closeSession_sessions map_of_delete_same)
  moreover have unknown: "\<And>s. sessions_get s k = None \<Longrightarrow> closeSession env k s = s"
    by (auto simp: sessions_get_def closeSession_def split: option.splits)
  ultimately show ?thesis
    using assms by (simp add: handleWebSocketMessage_def Let_def success_response_def)
qed

theorem browser_close_never_errors_witness:
  "browserService demo_gateway = Some demo_service
   \<and> msg_type demo_close_request = Some ''browser.close''
   \<and> msg_payload demo_close_request = Some \<lparr>sessionId = Some ''gone'', target_url = None\<rparr>
   \<and> sessions_get demo_service (Some ''gone'') = None
   \<and> handleWebSocketMessage demo_engine demo_gateway demo_close_request =
       ([\<lparr>resp_type = ''browser.closed'', resp_id = Some ''8'',
          resp_payload = Some (SuccessPayload True), resp_error = None\<rparr>],
        demo_gateway)"
proof -
  have svc: "browserService demo_gateway = Some demo_service"
    by (simp add: demo_gateway_def)
  have ty: "msg_type demo_close_request = Some ''browser.close''"
    by (simp add: demo_close_request_def)
  have pl: "msg_payload demo_close_request
      = Some \<lparr>sessionId = Some ''gone'', target_url = None\<rparr>"
    by (simp add: demo_close_request_def)
  have unknown: "sessions_get demo_service (Some ''gone'') = None"
    by (simp add: sessions_get_def demo_service_def)
  show ?thesis
    using browser_close_never_errors [OF svc ty pl, of demo_engine "Some ''gone''"]
      svc ty pl unknown
    by (simp add: demo_close_request_def demo_gateway_def)
qed

text \<open>
  C4. Whatever the gateway sends in answer to a message, a content string in its payload
  has at most 5000 characters.
\<close>

theorem browser_content_capped:
  assumes "r \<in> set (fst (handleWebSocketMessage env gw m))"
    and "resp_payload r = Some (ContentPayload c)"
  shows "length c \<le> 5000"
  using assms
  by (auto simp: handleWebSocketMessage_def Let_def success_response_def error_response_def
        js_slice0_def
      split: if_splits option.splits sum.splits prod.splits)

theorem browser_content_capped_witness:
  "demo_content_response
     \<in> set (fst (handleWebSocketMessage demo_engine demo_gateway demo_content_request))
   \<and> resp_payload demo_content_response = Some (ContentPayload (replicate 5000 CHR ''a''))
   \<and> length (replicate 5000 CHR ''a'') \<le> 5000"
proof -
  have sent: "demo_content_response
      \<in> set (fst (handleWebSocketMessage demo_engine demo_gateway demo_content_request))"
    by (simp add: handleWebSocketMessage_def demo_content_request_def demo_gateway_def
        demo_service_def demo_engine_def demo_innerText_def demo_session_def
        demo_content_response_def getTextContent_def sessions_get_def success_response_def
        js_slice0_def)
  have pl: "resp_payload demo_content_response
      = Some (ContentPayload (replicate 5000 CHR ''a''))"
    by (simp add: demo_content_response_def)
  show ?thesis
    using browser_content_capped [OF sent pl] sent pl by simp
qed

end
